theory Spec2Isabelle
  imports Main
begin

section \<open>Listeners, notifications and exceptions\<close>

text \<open>
  A listener is a JavaScript callback. The stores compare callbacks by identity only
  (\<^verbatim>\<open>indexOf\<close>), so a listener is modelled by a number naming the function object.
  Invoking listener \<open>l\<close> with value \<open>v\<close> is recorded as the pair \<open>(l, v)\<close> at the end of a
  trace of calls; listeners are observers: they do not call back into the store and do
  not throw.

  The value held by a store is of an arbitrary type \<open>'v\<close> whose HOL equality stands for
  JavaScript's \<^verbatim>\<open>===\<close>: equality of primitives, identity of object references
  (\<^verbatim>\<open>NaN\<close>, which is unequal to itself, is left out).
\<close>

type_synonym listener = nat

type_synonym 'v calls = "(listener \<times> 'v) list"

datatype js_error =
    ReferenceError string
  | TypeError string
  | Error string
  | SyntaxError string
  | DOMException string

text \<open>
  Reading an identifier that no enclosing scope binds throws ReferenceError; the scope
  is the table of the bindings visible at that place.
\<close>

definition resolve :: "(string \<rightharpoonup> 'a) \<Rightarrow> string \<Rightarrow> js_error + 'a" where
  "resolve scope name =
     (case scope name of None \<Rightarrow> Inl (ReferenceError name) | Some x \<Rightarrow> Inr x)"

text \<open>\<^verbatim>\<open>Array.prototype.indexOf\<close>: the first index of an element, or -1.\<close>

fun indexOf :: "'a list \<Rightarrow> 'a \<Rightarrow> int" where
  "indexOf [] x = -1"
| "indexOf (y # ys) x =
     (if y = x then 0 else (let i = indexOf ys x in if i = -1 then -1 else i + 1))"

text \<open>\<^verbatim>\<open>xs.splice(index, 1)\<close> for an index inside the array: the element there is removed.\<close>

definition splice1 :: "'a list \<Rightarrow> int \<Rightarrow> 'a list" where
  "splice1 xs index = take (nat index) xs @ drop (nat index + 1) xs"

section \<open>The homemade store (homemade-store.js)\<close>

text \<open>
  \<^verbatim>\<open>homemadeStore(value)\<close> closes over two variables, \<^verbatim>\<open>subscribers\<close> and \<^verbatim>\<open>state\<close>;
  the record holds them (\<open>state_homemade\<close> is the variable \<^verbatim>\<open>state\<close>). Every operation
  returns the store after the call together with the listener calls made during it.
\<close>

record 'v homemade =
  subscribers :: "listener list"
  state_homemade :: 'v

definition homemadeStore :: "'v \<Rightarrow> 'v homemade" where
  "homemadeStore v = \<lparr>subscribers = [], state_homemade = v\<rparr>"

text \<open>
  \<^verbatim>\<open>subscribe(listener)\<close> (lines 11-19) pushes the listener and returns the closure; it
  calls nothing.
\<close>

definition subscribe_homemade :: "'v homemade \<Rightarrow> listener \<Rightarrow> 'v homemade \<times> 'v calls" where
  "subscribe_homemade s listener = (s\<lparr>subscribers := subscribers s @ [listener]\<rparr>, [])"

text \<open>
  The closure returned by \<^verbatim>\<open>subscribe(listener)\<close> (lines 13-18), run on the store as it
  is when the closure is called. Its first statement evaluates
  \<^verbatim>\<open>subscribers.indexOf(subscriber)\<close>. The function-valued binding the closure can see
  is \<^verbatim>\<open>listener\<close>, the parameter of \<^verbatim>\<open>subscribe\<close>; the other names in scope
  (\<^verbatim>\<open>index\<close>, \<^verbatim>\<open>subscribers\<close>, \<^verbatim>\<open>state\<close>, \<^verbatim>\<open>value\<close>, \<^verbatim>\<open>homemadeStore\<close>) are spelled
  differently from the identifier read, and the file declares no \<^verbatim>\<open>subscriber\<close>.
\<close>

definition unsubscribe_scope :: "listener \<Rightarrow> (string \<rightharpoonup> listener)" where
  "unsubscribe_scope listener = [''listener'' \<mapsto> listener]"

definition unsubscribe_homemade :: "'v homemade \<Rightarrow> listener \<Rightarrow> js_error + 'v homemade" where
  "unsubscribe_homemade s listener =
     (case resolve (unsubscribe_scope listener) ''subscriber'' of
        Inl e \<Rightarrow> Inl e
      | Inr subscriber \<Rightarrow>
          (let index = indexOf (subscribers s) subscriber
           in if index \<noteq> -1 then Inr (s\<lparr>subscribers := splice1 (subscribers s) index\<rparr>)
              else Inr s))"

text \<open>
  \<^verbatim>\<open>set(newValue)\<close> (lines 21-26): the comparison guards the assignment only; the
  \<^verbatim>\<open>forEach\<close> over the subscribers follows it in every case.
\<close>

definition set_homemade :: "'v homemade \<Rightarrow> 'v \<Rightarrow> 'v homemade \<times> 'v calls" where
  "set_homemade s newValue =
     (let s' = (if state_homemade s \<noteq> newValue then s\<lparr>state_homemade := newValue\<rparr> else s)
      in (s', if length (subscribers s') > 0
              then map (\<lambda>l. (l, state_homemade s')) (subscribers s') else []))"

section \<open>The writable primitive (svelte/store)\<close>

text \<open>
  Modelled from the spec: \<^verbatim>\<open>writable\<close> is imported from the package svelte/store, which
  is not among the sources. The model follows section 4.1 of the specification:
  \<^verbatim>\<open>subscribe\<close> registers the callback and calls it once with the current value before
  returning; \<^verbatim>\<open>set\<close> with a value unequal to the stored one replaces it and calls the
  registered callbacks in subscription order, and with an equal value does nothing;
  \<^verbatim>\<open>update(fn)\<close> is \<^verbatim>\<open>set(fn(previous))\<close>.

  A callback registered with the primitive may be a wrapper with effects of its own (the
  persisted store writes to the backing storage in it), so the operations take the
  meaning \<open>run\<close> of a callback: given the listener, the value and the world before the
  call, the world after it and the exception it threw, if any. An exception ends the
  notification pass and leaves the operation with the effects made so far.
\<close>

type_synonym ('v, 'w) run = "listener \<Rightarrow> 'v \<Rightarrow> 'w \<Rightarrow> 'w \<times> js_error option"

record 'v writable =
  current :: 'v
  subs :: "listener list"

definition writable :: "'v \<Rightarrow> 'v writable" where
  "writable v = \<lparr>current = v, subs = []\<rparr>"

text \<open>
  Modelled from the spec: the notification pass of the primitive, in subscription order
  (section 4.1).
\<close>

fun notify :: "('v, 'w) run \<Rightarrow> listener list \<Rightarrow> 'v \<Rightarrow> 'w \<Rightarrow> 'w \<times> js_error option" where
  "notify run [] v w = (w, None)"
| "notify run (l # ls) v w =
     (case run l v w of
        (w', Some e) \<Rightarrow> (w', Some e)
      | (w', None) \<Rightarrow> notify run ls v w')"

text \<open>
  Modelled from the spec: \<^verbatim>\<open>subscribe\<close> of the primitive, with the replay of the current
  value (section 4.1).
\<close>

definition subscribe_writable ::
  "('v, 'w) run \<Rightarrow> 'v writable \<Rightarrow> listener \<Rightarrow> 'w \<Rightarrow> 'v writable \<times> 'w \<times> js_error option" where
  "subscribe_writable run st l w =
     (let st' = st\<lparr>subs := subs st @ [l]\<rparr>
      in (st', run l (current st') w))"

text \<open>
  Modelled from the spec: \<^verbatim>\<open>set\<close> and \<^verbatim>\<open>update\<close> of the primitive, with the skip of an
  equal value (section 4.1).
\<close>

definition set_writable ::
  "('v, 'w) run \<Rightarrow> 'v writable \<Rightarrow> 'v \<Rightarrow> 'w \<Rightarrow> 'v writable \<times> 'w \<times> js_error option" where
  "set_writable run st new_value w =
     (if current st \<noteq> new_value
      then (let st' = st\<lparr>current := new_value\<rparr>
            in (st', notify run (subs st') (current st') w))
      else (st, w, None))"

definition update_writable ::
  "('v, 'w) run \<Rightarrow> 'v writable \<Rightarrow> ('v \<Rightarrow> 'v) \<Rightarrow> 'w \<Rightarrow> 'v writable \<times> 'w \<times> js_error option" where
  "update_writable run st fn w = set_writable run st (fn (current st)) w"

text \<open>A plain listener: the call is appended to the trace and nothing is thrown.\<close>

definition invoke :: "('v, 'v calls) run" where
  "invoke l v log = (log @ [(l, v)], None)"

section \<open>The immer store (immer-store.js)\<close>

text \<open>
  \<^verbatim>\<open>immerStore(value)\<close> keeps its parameter \<^verbatim>\<open>value\<close> as a variable of its own beside
  the writable primitive; \<^verbatim>\<open>set\<close> (lines 7-11) compares against that variable and,
  when the values differ, assigns it and hands the value to the primitive's \<^verbatim>\<open>set\<close>.
  \<^verbatim>\<open>subscribe\<close> is the primitive's.
\<close>

record 'v immer_store =
  value_immer :: 'v
  store_immer :: "'v writable"

definition immerStore :: "'v \<Rightarrow> 'v immer_store" where
  "immerStore v = \<lparr>value_immer = v, store_immer = writable v\<rparr>"

definition set_immer ::
  "'v immer_store \<Rightarrow> 'v \<Rightarrow> 'v immer_store \<times> 'v calls" where
  "set_immer s new_value =
     (if new_value \<noteq> value_immer s
      then (case set_writable invoke (store_immer s) new_value [] of
              (st', log, _) \<Rightarrow> (\<lparr>value_immer = new_value, store_immer = st'\<rparr>, log))
      else (s, []))"

definition subscribe_immer ::
  "'v immer_store \<Rightarrow> listener \<Rightarrow> 'v immer_store \<times> 'v calls" where
  "subscribe_immer s l =
     (case subscribe_writable invoke (store_immer s) l [] of
        (st', log, _) \<Rightarrow> (s\<lparr>store_immer := st'\<rparr>, log))"

section \<open>JavaScript numbers\<close>

text \<open>
  The counters of the stores are JavaScript numbers: doubles. They start at 0 and change
  by adding or subtracting 1, so they hold integers; an integer \<open>n\<close> stands for the double
  of that value. The sum and the difference of doubles are the exact results rounded to
  the nearest double, ties to the even significand. \<open>round_double\<close> is that rounding on
  integers: a double has 53 significant bits, \<open>shift_of\<close> counts the low bits that do not
  fit, and they are rounded away. (Overflow to infinity, beyond \<open>2 ^ 1024\<close>, is left out.)
\<close>

function shift_of :: "nat \<Rightarrow> nat" where
  "shift_of a = (if a < 2 ^ 53 then 0 else Suc (shift_of (a div 2)))"
  by pat_completeness auto
termination
  by (relation "measure (\<lambda>a. a)") auto

definition round_double :: "int \<Rightarrow> int" where
  "round_double n =
     (let a = nat \<bar>n\<bar>; sh = shift_of a
      in if sh = 0 then n
         else (let q = a div 2 ^ sh; r = a mod 2 ^ sh; half = 2 ^ (sh - 1);
                   q' = (if half < r \<or> (r = half \<and> odd q) then q + 1 else q)
               in sgn n * int (q' * 2 ^ sh)))"

section \<open>The immer actions store (immer-actions-store.js)\<close>

text \<open>
  The value of the store is an object with the fields \<^verbatim>\<open>visible\<close> and \<^verbatim>\<open>dogs\<close>. The
  record extends the one-field record that is the context of the state machine of
  xstate-store.js, so that \<open>dogs\<close> reads both.
\<close>

record dog_context =
  dogs :: int

record dog_state = dog_context +
  visible :: bool

definition initialState :: dog_state where
  "initialState = \<lparr>dogs = 0, visible = False\<rparr>"

text \<open>
  Modelled from the spec: \<^verbatim>\<open>produce\<close> is imported from the package immer, which is not
  among the sources. Section 4.1: the function receives a mutable draft of the value and
  the mutations recorded against the draft are materialised into the new value. A recipe
  either returns nothing, and the draft as it left it is the result (\<open>Draft\<close>), or returns
  a value, which is the result (\<open>Returned\<close>). \<^verbatim>\<open>produce(recipe)\<close> is the curried form: a
  function of the base value and the further arguments of the recipe.
\<close>

datatype 's recipe_result = Draft 's | Returned 's

type_synonym ('s, 'p) recipe = "'s \<Rightarrow> 'p \<Rightarrow> 's recipe_result"

text \<open>Modelled from the spec: the curried \<^verbatim>\<open>produce\<close> of immer (section 4.1).\<close>

definition produce :: "('s, 'p) recipe \<Rightarrow> 's \<Rightarrow> 'p \<Rightarrow> 's" where
  "produce recipe base payload =
     (case recipe base payload of Draft d \<Rightarrow> d | Returned r \<Rightarrow> r)"

text \<open>The five recipes of the table \<^verbatim>\<open>actions\<close> (lines 9-25).\<close>

definition reset_action :: "(dog_state, 'p) recipe" where
  "reset_action state payload = Returned initialState"

definition show_action :: "(dog_state, 'p) recipe" where
  "show_action state payload = Draft (state\<lparr>visible := True\<rparr>)"

definition hide_action :: "(dog_state, 'p) recipe" where
  "hide_action state payload = Draft (state\<lparr>visible := False\<rparr>)"

definition inc_action :: "(dog_state, 'p) recipe" where
  "inc_action state payload = Draft (state\<lparr>dogs := round_double (dogs state + 1)\<rparr>)"

definition dec_action :: "(dog_state, 'p) recipe" where
  "dec_action state payload =
     Draft (if dogs state > 0 then state\<lparr>dogs := round_double (dogs state - 1)\<rparr>
            else state)"

definition actions :: "string \<rightharpoonup> (dog_state, 'p) recipe" where
  "actions =
     [''reset'' \<mapsto> reset_action, ''show'' \<mapsto> show_action, ''hide'' \<mapsto> hide_action,
      ''inc'' \<mapsto> inc_action, ''dec'' \<mapsto> dec_action]"

text \<open>
  \<^verbatim>\<open>immerActionsStore(value, actions)\<close> (lines 27-39): the store is the writable primitive
  and every key of the table is mapped to
  \<^verbatim>\<open>payload => store.update(state => produce(actions[actionName])(state, payload))\<close>.
  Calling a name that is no key of the table is a call of \<^verbatim>\<open>undefined\<close>.
\<close>

definition immerActionsStore :: "'s \<Rightarrow> 's writable" where
  "immerActionsStore v = writable v"

definition mappedActions ::
  "(string \<rightharpoonup> ('s, 'p) recipe) \<Rightarrow> string \<Rightarrow> 'p \<Rightarrow> 's writable
     \<Rightarrow> js_error + ('s writable \<times> 's calls)" where
  "mappedActions acts actionName payload st =
     (case acts actionName of
        None \<Rightarrow> Inl (TypeError ''actions[actionName] is not a function'')
      | Some recipe \<Rightarrow>
          (case update_writable invoke st (\<lambda>state. produce recipe state payload) [] of
             (st', log, _) \<Rightarrow> Inr (st', log)))"

section \<open>The persisted store (local-storage-store.js)\<close>

text \<open>
  The backing key-value storage is the browser's \<^verbatim>\<open>localStorage\<close>: a table of strings
  whose \<^verbatim>\<open>getItem\<close> and \<^verbatim>\<open>setItem\<close> may throw (storage disabled, quota exceeded). The
  two flags say whether they do.
\<close>

record local_storage =
  items :: "string \<rightharpoonup> string"
  get_fails :: bool
  set_fails :: bool

definition getItem :: "local_storage \<Rightarrow> string \<Rightarrow> js_error + string option" where
  "getItem ls k =
     (if get_fails ls then Inl (DOMException ''SecurityError'') else Inr (items ls k))"

definition setItem :: "local_storage \<Rightarrow> string \<Rightarrow> string \<Rightarrow> js_error + local_storage" where
  "setItem ls k v =
     (if set_fails ls then Inl (DOMException ''QuotaExceededError'')
      else Inr (ls\<lparr>items := (items ls)(k \<mapsto> v)\<rparr>))"

text \<open>
  \<^verbatim>\<open>JSON.stringify\<close> and \<^verbatim>\<open>JSON.parse\<close> are parameters: \<open>stringify\<close> is total, \<open>parse\<close>
  may throw. \<^verbatim>\<open>createPersistedStore(key, defaultValue)\<close> (lines 3-18) reads the key,
  parses what it finds (\<^verbatim>\<open>null\<close> and the empty string are falsy, and then the default
  is taken) and builds the writable primitive. No statement of the function is inside a
  \<^verbatim>\<open>try\<close>.
\<close>

record 'v persisted =
  key :: string
  store_persisted :: "'v writable"

definition createPersistedStore ::
  "(string \<Rightarrow> js_error + 'v) \<Rightarrow> local_storage \<Rightarrow> string \<Rightarrow> 'v \<Rightarrow> js_error + 'v persisted" where
  "createPersistedStore parse ls k defaultValue =
     (case getItem ls k of
        Inl e \<Rightarrow> Inl e
      | Inr initialJson \<Rightarrow>
          (case (case initialJson of
                   None \<Rightarrow> Inr defaultValue
                 | Some json \<Rightarrow> if json \<noteq> [] then parse json else Inr defaultValue) of
             Inl e \<Rightarrow> Inl e
           | Inr initialValue \<Rightarrow> Inr \<lparr>key = k, store_persisted = writable initialValue\<rparr>))"

text \<open>
  The callback that \<^verbatim>\<open>subscribe(fn)\<close> registers with the primitive (lines 9-12): it
  writes the serialised value under the key and then calls \<^verbatim>\<open>fn\<close>. The world is the
  storage and the trace of the calls of the listeners. When \<^verbatim>\<open>setItem\<close> throws, the
  statement calling \<^verbatim>\<open>fn\<close> is not reached.
\<close>

definition persist_then_call ::
  "('v \<Rightarrow> string) \<Rightarrow> string \<Rightarrow> ('v, local_storage \<times> 'v calls) run" where
  "persist_then_call stringify k fn cur w =
     (case setItem (fst w) k (stringify cur) of
        Inl e \<Rightarrow> (w, Some e)
      | Inr ls' \<Rightarrow> ((ls', snd w @ [(fn, cur)]), None))"

definition subscribe_persisted ::
  "('v \<Rightarrow> string) \<Rightarrow> 'v persisted \<Rightarrow> listener \<Rightarrow> local_storage \<times> 'v calls
     \<Rightarrow> 'v persisted \<times> (local_storage \<times> 'v calls) \<times> js_error option" where
  "subscribe_persisted stringify p fn w =
     (case subscribe_writable (persist_then_call stringify (key p)) (store_persisted p) fn w of
        (st', w', e) \<Rightarrow> (p\<lparr>store_persisted := st'\<rparr>, w', e))"

definition set_persisted ::
  "('v \<Rightarrow> string) \<Rightarrow> 'v persisted \<Rightarrow> 'v \<Rightarrow> local_storage \<times> 'v calls
     \<Rightarrow> 'v persisted \<times> (local_storage \<times> 'v calls) \<times> js_error option" where
  "set_persisted stringify p v w =
     (case set_writable (persist_then_call stringify (key p)) (store_persisted p) v w of
        (st', w', e) \<Rightarrow> (p\<lparr>store_persisted := st'\<rparr>, w', e))"

section \<open>The simple state machine store (unnamed source part_003)\<close>

text \<open>
  The configuration is an object \<^verbatim>\<open>{init, states}\<close>. \<^verbatim>\<open>states\<close> and the \<^verbatim>\<open>on\<close> table of
  a state definition are object literals, and \<^verbatim>\<open>send\<close> reads them with \<^verbatim>\<open>obj[key]\<close>,
  which finds the object's own properties and, failing that, the members every object
  inherits from \<^verbatim>\<open>Object.prototype\<close>. An object is modelled by the table of its own
  properties; \<open>get_property\<close> is the read through the prototype.
\<close>

definition object_prototype :: "string list" where
  "object_prototype =
     [''constructor'', ''hasOwnProperty'', ''isPrototypeOf'', ''propertyIsEnumerable'',
      ''toLocaleString'', ''toString'', ''valueOf'', ''__defineGetter__'', ''__defineSetter__'',
      ''__lookupGetter__'', ''__lookupSetter__'', ''__proto__'']"

datatype 'a property = Own 'a | Proto string | Undefined

definition get_property :: "(string \<rightharpoonup> 'a) \<Rightarrow> string \<Rightarrow> 'a property" where
  "get_property obj k =
     (case obj k of
        Some x \<Rightarrow> Own x
      | None \<Rightarrow> if k \<in> set object_prototype then Proto k else Undefined)"

text \<open>
  The values that \<^verbatim>\<open>current_state\<close> can hold: a string written in an \<^verbatim>\<open>on\<close> table (or
  the initial name), or the member of \<^verbatim>\<open>Object.prototype\<close> of the given name, which is
  what \<^verbatim>\<open>on[event]\<close> is for an inherited event name. Used as a property key such a
  member is converted to a string: the source text of the built-in function, and
  \<^verbatim>\<open>[object Object]\<close> for the prototype object itself, which \<^verbatim>\<open>__proto__\<close> reads. The
  member \<^verbatim>\<open>constructor\<close> is the function named \<^verbatim>\<open>Object\<close>.
\<close>

datatype js_value = Str string | Inherited string

definition property_key :: "js_value \<Rightarrow> string" where
  "property_key v =
     (case v of
        Str k \<Rightarrow> k
      | Inherited n \<Rightarrow>
          if n = ''__proto__'' then ''[object Object]''
          else if n = ''constructor'' then ''function Object() { [native code] }''
          else ''function '' @ n @ ''() { [native code] }'')"

text \<open>
  A state definition is an object that may or may not have the table \<^verbatim>\<open>on\<close> from event
  names to target state names. The store closes over \<^verbatim>\<open>states\<close>, \<^verbatim>\<open>current_state\<close> and
  the writable primitive.
\<close>

record state_def =
  on :: "(string \<rightharpoonup> string) option"

record machine_config =
  init :: string
  states :: "string \<rightharpoonup> state_def"

record machine_store =
  states_machine :: "string \<rightharpoonup> state_def"
  current_state :: js_value
  store_machine :: "js_value writable"

text \<open>
  \<^verbatim>\<open>machine({init, states})\<close>, lines 3-6: the own-property check
  (\<^verbatim>\<open>hasOwnProperty\<close>) and the throw.
\<close>

definition machine :: "machine_config \<Rightarrow> js_error + machine_store" where
  "machine cfg =
     (if init cfg \<notin> dom (states cfg)
      then Inl (Error ''That isn't a state, choose a real init state!'')
      else Inr \<lparr>states_machine = states cfg, current_state = Str (init cfg),
                store_machine = writable (Str (init cfg))\<rparr>)"

text \<open>
  The truthy value of \<^verbatim>\<open>on[event]\<close>, if it has one: a target that is the empty string
  is falsy, an inherited member is a function or an object and truthy.
\<close>

definition truthy_handler :: "string property \<Rightarrow> js_value option" where
  "truthy_handler h =
     (case h of
        Own t \<Rightarrow> if t = [] then None else Some (Str t)
      | Proto n \<Rightarrow> Some (Inherited n)
      | Undefined \<Rightarrow> None)"

text \<open>
  \<^verbatim>\<open>send(event)\<close>, lines 8-20. The result is the store after the call, the calls of the
  listeners, the lines written to the console, and the exception thrown, if any.

  Line 9 reads \<^verbatim>\<open>states[current_state].on[event]\<close>: when \<^verbatim>\<open>states[current_state]\<close> is
  \<^verbatim>\<open>undefined\<close>, reading its \<^verbatim>\<open>on\<close> throws TypeError; when it is an inherited member or
  a definition written without \<^verbatim>\<open>on\<close>, its \<^verbatim>\<open>on\<close> is \<^verbatim>\<open>undefined\<close> and reading
  \<^verbatim>\<open>[event]\<close> of that throws TypeError. Line 14 tests \<^verbatim>\<open>states[target]\<close> for
  truthiness, which a definition and an inherited member both pass. Lines 18-19 store
  the value of \<^verbatim>\<open>on[event]\<close> and hand it to the primitive.
\<close>

definition send ::
  "machine_store \<Rightarrow> string
     \<Rightarrow> machine_store \<times> js_value calls \<times> string list \<times> js_error option" where
  "send m event =
     (case get_property (states_machine m) (property_key (current_state m)) of
        Undefined \<Rightarrow> (m, [], [], Some (TypeError ''states[current_state] is undefined''))
      | Proto n \<Rightarrow> (m, [], [], Some (TypeError ''states[current_state].on is undefined''))
      | Own d \<Rightarrow>
          (case on d of
             None \<Rightarrow> (m, [], [], Some (TypeError ''states[current_state].on is undefined''))
           | Some tbl \<Rightarrow>
               (case truthy_handler (get_property tbl event) of
                  None \<Rightarrow> (m, [], [''no such event''], None)
                | Some t \<Rightarrow>
                    (case get_property (states_machine m) (property_key t) of
                       Undefined \<Rightarrow> (m, [], [''no such state''], None)
                     | _ \<Rightarrow>
                         (case set_writable invoke (store_machine m) t [] of
                            (st', log, _) \<Rightarrow>
                              (m\<lparr>current_state := t, store_machine := st'\<rparr>, log, [], None))))))"




text \<open>The configuration of the module, lines 28-42.\<close>

definition state_config :: machine_config where
  "state_config =
     \<lparr>init = ''invisible'',
      states = [''visible'' \<mapsto> \<lparr>on = Some [''HIDE'' \<mapsto> ''invisible'']\<rparr>,
                ''invisible'' \<mapsto> \<lparr>on = Some [''SHOW'' \<mapsto> ''visible'']\<rparr>]\<rparr>"

section \<open>The guarded state machine store (xstate-store.js)\<close>

text \<open>
  Modelled from the spec: \<^verbatim>\<open>createMachine\<close>, \<^verbatim>\<open>interpret\<close> and \<^verbatim>\<open>assign\<close> are imported
  from the package @xstate/fsm, which is not among the sources. The model follows
  section 4.2 of the specification, steps 1 to 5 of \<^verbatim>\<open>send\<close>: the handler of the event
  in the current state is looked up and an absent one leaves the state as it is; a
  target that is no key of the table of states is a no-op as well; a guard that is false
  rejects the transition; an accepted transition applies its actions in order to the
  context and moves to the target, or stays where it is when the handler names no
  target; the state is flagged as changed when the state name or the context differs
  from the one before, and only a changed state is published. A current state
  that is no key of the table, which no transition can produce, is an error.

  An event is an object with the field \<^verbatim>\<open>type\<close>. A handler is written either as the
  name of the target or as an object with \<^verbatim>\<open>target\<close>, \<^verbatim>\<open>internal\<close>, \<^verbatim>\<open>actions\<close> and
  \<^verbatim>\<open>cond\<close>, each optional.
\<close>

record event =
  type :: string

record 'c transition_config =
  target :: "string option"
  internal :: bool
  actions_fsm :: "('c \<Rightarrow> event \<Rightarrow> 'c) list"
  cond :: "('c \<Rightarrow> event \<Rightarrow> bool) option"

datatype 'c transition = Target string | Config "'c transition_config"

record 'c state_node =
  on_fsm :: "string \<rightharpoonup> 'c transition"

record 'c fsm_config =
  initial :: string
  context_fsm :: 'c
  states_fsm :: "string \<rightharpoonup> 'c state_node"

text \<open>
  A state of the interpreter: the state name, the context and the flag \<^verbatim>\<open>changed\<close>
  (absent, hence falsy, in the initial state).
\<close>

record 'c fsm_state =
  value_fsm :: string
  context_of :: 'c
  changed :: bool

definition initial_fsm_state :: "'c fsm_config \<Rightarrow> 'c fsm_state" where
  "initial_fsm_state mc = \<lparr>value_fsm = initial mc, context_of = context_fsm mc, changed = False\<rparr>"

definition unchanged_state :: "'c fsm_state \<Rightarrow> 'c fsm_state" where
  "unchanged_state st = \<lparr>value_fsm = value_fsm st, context_of = context_of st, changed = False\<rparr>"

text \<open>
  Modelled from the spec: the transition function of @xstate/fsm (section 4.2, steps 1
  to 5). A handler is one transition; the array form of several candidates is not
  modelled.
\<close>

definition normalise :: "'c transition \<Rightarrow> 'c transition_config" where
  "normalise tr =
     (case tr of
        Target t \<Rightarrow> \<lparr>target = Some t, internal = False, actions_fsm = [], cond = None\<rparr>
      | Config c \<Rightarrow> c)"

definition transition_fsm ::
  "'c fsm_config \<Rightarrow> 'c fsm_state \<Rightarrow> event \<Rightarrow> js_error + 'c fsm_state" where
  "transition_fsm mc st ev =
     (case states_fsm mc (value_fsm st) of
        None \<Rightarrow> Inl (Error (''State not found on machine: '' @ value_fsm st))
      | Some node \<Rightarrow>
          (case on_fsm node (type ev) of
             None \<Rightarrow> Inr (unchanged_state st)
           | Some tr \<Rightarrow>
               (let c = normalise tr;
                    next_value = (case target c of None \<Rightarrow> value_fsm st | Some t \<Rightarrow> t);
                    guard = (case cond c of None \<Rightarrow> True | Some g \<Rightarrow> g (context_of st) ev);
                    next_context = fold (\<lambda>a ctx. a ctx ev) (actions_fsm c) (context_of st)
                in if guard
                   then (case states_fsm mc next_value of
                           None \<Rightarrow> Inr (unchanged_state st)
                         | Some _ \<Rightarrow>
                             Inr \<lparr>value_fsm = next_value,
                                  context_of = next_context,
                                  changed = (next_value \<noteq> value_fsm st
                                             \<or> next_context \<noteq> context_of st)\<rparr>)
                   else Inr (unchanged_state st))))"

text \<open>
  Modelled from the spec: the interpreter of @xstate/fsm, as \<^verbatim>\<open>useMachine\<close> (lines 16-35
  of xstate-store.js) wires it to the readable store. \<^verbatim>\<open>send\<close> does nothing unless the
  service is running (\<^verbatim>\<open>useMachine\<close> starts it at the first subscription); otherwise it
  takes the transition and hands the new state to its listeners. The one listener is the
  one \<^verbatim>\<open>useMachine\<close> installs (lines 20-22 of xstate-store.js), which calls the \<^verbatim>\<open>set\<close>
  of the readable store when \<^verbatim>\<open>state.changed\<close> is truthy. \<open>send_fsm\<close> returns the service
  after the call and the states passed to that \<^verbatim>\<open>set\<close>: the notifications of the store.
\<close>

datatype status = NotStarted | Running | Stopped

record 'c service =
  status_of :: status
  state_fsm :: "'c fsm_state"

definition interpret_fsm :: "'c fsm_config \<Rightarrow> 'c service" where
  "interpret_fsm mc = \<lparr>status_of = NotStarted, state_fsm = initial_fsm_state mc\<rparr>"

definition start :: "'c service \<Rightarrow> 'c service" where
  "start svc = svc\<lparr>status_of := Running\<rparr>"

definition send_fsm ::
  "'c fsm_config \<Rightarrow> 'c service \<Rightarrow> event \<Rightarrow> js_error + ('c service \<times> 'c fsm_state list)" where
  "send_fsm mc svc ev =
     (if status_of svc \<noteq> Running then Inr (svc, [])
      else (case transition_fsm mc (state_fsm svc) ev of
              Inl e \<Rightarrow> Inl e
            | Inr st' \<Rightarrow> Inr (svc\<lparr>state_fsm := st'\<rparr>, if changed st' then [st'] else [])))"

fun send_all_fsm ::
  "'c fsm_config \<Rightarrow> 'c service \<Rightarrow> event list \<Rightarrow> js_error + ('c service \<times> 'c fsm_state list)" where
  "send_all_fsm mc svc [] = Inr (svc, [])"
| "send_all_fsm mc svc (ev # evs) =
     (case send_fsm mc svc ev of
        Inl e \<Rightarrow> Inl e
      | Inr (svc', ns) \<Rightarrow>
          (case send_all_fsm mc svc' evs of
             Inl e \<Rightarrow> Inl e
           | Inr (svc'', ns') \<Rightarrow> Inr (svc'', ns @ ns')))"

text \<open>
  The definitions of xstate-store.js: the two assignments (lines 4-9), the guard (lines
  10-14) and the machine (lines 37-61). \<^verbatim>\<open>assign({dogs: f})\<close> replaces the field
  \<^verbatim>\<open>dogs\<close> of the context by \<open>f\<close> of the context.
\<close>

definition assign_dogs :: "(dog_context \<Rightarrow> int) \<Rightarrow> dog_context \<Rightarrow> event \<Rightarrow> dog_context" where
  "assign_dogs f ctx ev = ctx\<lparr>dogs := f ctx\<rparr>"

definition increment :: "dog_context \<Rightarrow> event \<Rightarrow> dog_context" where
  "increment = assign_dogs (\<lambda>ctx. round_double (dogs ctx + 1))"

definition decrement :: "dog_context \<Rightarrow> event \<Rightarrow> dog_context" where
  "decrement = assign_dogs (\<lambda>ctx. round_double (dogs ctx - 1))"

definition dogsCanChange :: "dog_context \<Rightarrow> event \<Rightarrow> bool" where
  "dogsCanChange ctx ev =
     (if type ev = ''DEC'' \<and> dogs ctx \<le> 0 then False
      else if type ev = ''INC'' \<and> dogs ctx \<ge> 6 then False
      else True)"

definition dog_machine :: "dog_context fsm_config" where
  "dog_machine =
     \<lparr>initial = ''visible'',
      context_fsm = \<lparr>dogs = 0\<rparr>,
      states_fsm =
        [''visible'' \<mapsto>
           \<lparr>on_fsm =
              [''HIDE'' \<mapsto> Target ''invisible'',
               ''INC'' \<mapsto> Config \<lparr>target = None, internal = True,
                                    actions_fsm = [increment], cond = Some dogsCanChange\<rparr>,
               ''DEC'' \<mapsto> Config \<lparr>target = None, internal = True,
                                    actions_fsm = [decrement], cond = Some dogsCanChange\<rparr>]\<rparr>,
         ''invisible'' \<mapsto> \<lparr>on_fsm = [''SHOW'' \<mapsto> Target ''visible'']\<rparr>]\<rparr>"

text \<open>
  The invariant of the machine: the state name is one of the two states and the counter
  is within the bounds of the guard.
\<close>

definition dog_inv :: "dog_context fsm_state \<Rightarrow> bool" where
  "dog_inv st =
     ((value_fsm st = ''visible'' \<or> value_fsm st = ''invisible'')
      \<and> 0 \<le> dogs (context_of st) \<and> dogs (context_of st) \<le> 6)"

subsection \<open>The other copy of the module (unnamed source part_002)\<close>

text \<open>
  The sources hold a second copy of the module that differs in lines 10-14 and 46-47.
  There the two \<^verbatim>\<open>if\<close> statements of \<^verbatim>\<open>dogsCanChange\<close> evaluate \<^verbatim>\<open>false\<close> as an
  expression statement and return nothing, so the function returns \<^verbatim>\<open>true\<close> for every
  argument; and the handlers of \<^verbatim>\<open>INC\<close> and \<^verbatim>\<open>DEC\<close> have no \<^verbatim>\<open>cond\<close>. The machine of
  that copy is not guarded. The options of \<^verbatim>\<open>createMachine\<close> still list the function
  under \<^verbatim>\<open>guards\<close>, as those of xstate-store.js do.
\<close>

definition dogsCanChange_part_002 :: "dog_context \<Rightarrow> event \<Rightarrow> bool" where
  "dogsCanChange_part_002 ctx ev = True"

definition dog_machine_part_002 :: "dog_context fsm_config" where
  "dog_machine_part_002 =
     \<lparr>initial = ''visible'',
      context_fsm = \<lparr>dogs = 0\<rparr>,
      states_fsm =
        [''visible'' \<mapsto>
           \<lparr>on_fsm =
              [''HIDE'' \<mapsto> Target ''invisible'',
               ''INC'' \<mapsto> Config \<lparr>target = None, internal = True,
                                    actions_fsm = [increment], cond = None\<rparr>,
               ''DEC'' \<mapsto> Config \<lparr>target = None, internal = True,
                                    actions_fsm = [decrement], cond = None\<rparr>]\<rparr>,
         ''invisible'' \<mapsto> \<lparr>on_fsm = [''SHOW'' \<mapsto> Target ''visible'']\<rparr>]\<rparr>"

section \<open>Concrete parameters for the examples\<close>

text \<open>
  \<^verbatim>\<open>JSON.stringify\<close> and \<^verbatim>\<open>JSON.parse\<close> on booleans, and a storage that is empty and
  does not fail; the examples of the persisted store are evaluated with them.
\<close>

definition stringify_bool :: "bool \<Rightarrow> string" where
  "stringify_bool b = (if b then ''true'' else ''false'')"

definition parse_bool :: "string \<Rightarrow> js_error + bool" where
  "parse_bool json =
     (if json = ''true'' then Inr True
      else if json = ''false'' then Inr False
      else Inl (SyntaxError ''Unexpected token in JSON''))"

definition storage_ok :: local_storage where
  "storage_ok = \<lparr>items = Map.empty, get_fails = False, set_fails = False\<rparr>"

section \<open>Properties of the rounding\<close>

declare shift_of.simps [simp del]

lemma shift_of_small: "a < 2 ^ 53 \<Longrightarrow> shift_of a = 0"
  by (simp add: shift_of.simps)

lemma shift_of_large: "\<not> a < 2 ^ 53 \<Longrightarrow> shift_of a = Suc (shift_of (a div 2))"
  by (subst shift_of.simps) simp

lemma round_double_small: "\<bar>n\<bar> < 2 ^ 53 \<Longrightarrow> round_double n = n"
  by (simp add: round_double_def shift_of_small Let_def)

lemma round_double_exact: "- (2 ^ 53) < n \<Longrightarrow> n < 2 ^ 53 \<Longrightarrow> round_double n = n"
  by (rule round_double_small) simp

lemma round_double_nonneg: "0 \<le> n \<Longrightarrow> 0 \<le> round_double n"
proof -
  assume n: "0 \<le> n"
  have "0 \<le> sgn n * int k" for k
    using n by (cases "n = 0") simp_all
  then show ?thesis
    using n by (simp add: round_double_def Let_def del: of_nat_mult of_nat_add of_nat_power)
qed

lemma round_double_ties_to_even:
  "round_double (9007199254740992 + 1) = 9007199254740992"
  "round_double (9007199254740994 + 1) = 9007199254740996"
  by (simp_all add: round_double_def shift_of_large shift_of_small Let_def)

section \<open>Properties of the homemade store and of the primitive\<close>

lemma set_homemade_calls:
  "snd (set_homemade s v) = map (\<lambda>l. (l, v)) (subscribers s)"
  by (simp add: set_homemade_def Let_def)

lemma set_homemade_store:
  "fst (set_homemade s v) = s\<lparr>state_homemade := v\<rparr>"
  by (simp add: set_homemade_def Let_def)

lemma count_list_map_pair:
  "count_list (map (\<lambda>l. (l, v)) ls) (l, v) = count_list ls l"
  by (induction ls) auto

lemma subscribe_writable_invoke:
  "subscribe_writable invoke st l [] = (st\<lparr>subs := subs st @ [l]\<rparr>, [(l, current st)], None)"
  by (simp add: subscribe_writable_def invoke_def Let_def)

lemma notify_invoke:
  "notify invoke ls v log = (log @ map (\<lambda>l. (l, v)) ls, None)"
  by (induction ls arbitrary: log) (auto simp: invoke_def)

lemma set_writable_invoke:
  "set_writable invoke st v [] =
     (if current st \<noteq> v then (st\<lparr>current := v\<rparr>, map (\<lambda>l. (l, v)) (subs st), None)
      else (st, [], None))"
  by (simp add: set_writable_def notify_invoke Let_def)

text \<open>
  C1, as it holds. On a store whose \<^verbatim>\<open>subscribe\<close> is the writable primitive's (the immer
  store), \<^verbatim>\<open>subscribe(listener)\<close> calls the listener exactly once, with the current value,
  before it returns, and registers it. On the homemade store \<^verbatim>\<open>subscribe(listener)\<close>
  appends the listener, leaves the value alone and calls nothing; the listener gets its
  first value from the next \<^verbatim>\<open>set\<close> of a value other than the stored one, which calls
  it once for each of its registrations.
\<close>

theorem subscribe_replay_amended:
  "snd (subscribe_immer si l) = [(l, current (store_immer si))]
   \<and> subs (store_immer (fst (subscribe_immer si l))) = subs (store_immer si) @ [l]
   \<and> snd (subscribe_homemade s l) = []
   \<and> subscribers (fst (subscribe_homemade s l)) = subscribers s @ [l]
   \<and> state_homemade (fst (subscribe_homemade s l)) = state_homemade s
   \<and> (v \<noteq> state_homemade s \<longrightarrow>
        count_list (snd (set_homemade (fst (subscribe_homemade s l)) v)) (l, v)
          = count_list (subscribers s) l + 1)"
proof -
  have immer: "subscribe_immer si l =
      (si\<lparr>store_immer := (store_immer si)\<lparr>subs := subs (store_immer si) @ [l]\<rparr>\<rparr>,
       [(l, current (store_immer si))])"
    by (simp add: subscribe_immer_def subscribe_writable_invoke)
  have home: "subscribe_homemade s l = (s\<lparr>subscribers := subscribers s @ [l]\<rparr>, [])"
    by (simp add: subscribe_homemade_def)
  have "count_list (snd (set_homemade (s\<lparr>subscribers := subscribers s @ [l]\<rparr>) v)) (l, v)
        = count_list (subscribers s @ [l]) l"
    by (simp only: set_homemade_calls count_list_map_pair) simp
  then show ?thesis
    by (simp add: immer home)
qed

text \<open>
  C1, as it holds, at \<^verbatim>\<open>homemadeStore(false)\<close> and \<^verbatim>\<open>immerStore(false)\<close> with listener
  7: subscribing to the first calls nothing and the following \<^verbatim>\<open>set(true)\<close> calls the
  listener once; subscribing to the second calls the listener once with \<^verbatim>\<open>false\<close>.
\<close>

theorem subscribe_replay_amended_witness:
  "snd (subscribe_immer (immerStore False) 7) = [(7, False)]
   \<and> snd (subscribe_homemade (homemadeStore False) 7) = []
   \<and> True \<noteq> state_homemade (homemadeStore False)
   \<and> count_list (snd (set_homemade (fst (subscribe_homemade (homemadeStore False) 7)) True))
        (7, True) = 1"
  using subscribe_replay_amended[of "immerStore False" 7 "homemadeStore False" True]
  by (simp add: immerStore_def writable_def homemadeStore_def)

text \<open>
  C1, as stated, fails on the homemade store: subscribing listener 7 to
  \<^verbatim>\<open>homemadeStore(false)\<close> makes no call at all, so the listener is not called once with
  \<^verbatim>\<open>false\<close>.
\<close>

theorem subscribe_homemade_no_replay:
  "snd (subscribe_homemade (homemadeStore False) 7) = []
   \<and> count_list (snd (subscribe_homemade (homemadeStore False) 7)) (7, False) \<noteq> 1"
  by (simp add: subscribe_homemade_def homemadeStore_def)

lemma set_immer_equal: "set_immer s (value_immer s) = (s, [])"
  by (simp add: set_immer_def)

lemma set_immer_unequal:
  assumes "v \<noteq> value_immer s" and "current (store_immer s) = value_immer s"
  shows "set_immer s v =
           (\<lparr>value_immer = v, store_immer = (store_immer s)\<lparr>current := v\<rparr>\<rparr>,
            map (\<lambda>l. (l, v)) (subs (store_immer s)))"
  using assms by (simp add: set_immer_def set_writable_invoke)

text \<open>
  C3 at the homemade store. With listener 7 subscribed to \<^verbatim>\<open>homemadeStore(false)\<close>,
  \<^verbatim>\<open>set(false)\<close> passes the value already stored; the store keeps it and the listener is
  called with it all the same.
\<close>

theorem set_homemade_equal_notifies:
  "set_homemade (fst (subscribe_homemade (homemadeStore False) 7)) False
     = (\<lparr>subscribers = [7], state_homemade = False\<rparr>, [(7, False)])"
  by (simp add: set_homemade_def subscribe_homemade_def homemadeStore_def)

lemma unsubscribe_homemade_always_throws:
  "unsubscribe_homemade s l = Inl (ReferenceError ''subscriber'')"
  by (simp add: unsubscribe_homemade_def resolve_def unsubscribe_scope_def)

text \<open>
  C4 at the homemade store. The closure returned by subscribing listener 7 to
  \<^verbatim>\<open>homemadeStore(false)\<close> throws a ReferenceError at its first call; the listener stays
  registered and the next \<^verbatim>\<open>set\<close> still calls it.
\<close>

theorem unsubscribe_homemade_throws:
  "unsubscribe_homemade (fst (subscribe_homemade (homemadeStore False) 7)) 7
     = Inl (ReferenceError ''subscriber'')
   \<and> subscribers (fst (subscribe_homemade (homemadeStore False) 7)) = [7]
   \<and> snd (set_homemade (fst (subscribe_homemade (homemadeStore False) 7)) True) = [(7, True)]"
  by (simp add: unsubscribe_homemade_def resolve_def unsubscribe_scope_def
      set_homemade_def subscribe_homemade_def homemadeStore_def)

section \<open>Properties of the simple state machine store\<close>







text \<open>
  A target that is the name of an inherited member passes the test of line 14. The
  store of \<^verbatim>\<open>{a: {on: {GO: 'toString'}}}\<close> moves to \<^verbatim>\<open>toString\<close> on \<^verbatim>\<open>GO\<close> and
  notifies its listener; from there every \<^verbatim>\<open>send\<close> throws TypeError.
\<close>

lemma send_inherited_target:
  "send \<lparr>states_machine = [''a'' \<mapsto> \<lparr>on = Some [''GO'' \<mapsto> ''toString'']\<rparr>],
          current_state = Str ''a'', store_machine = \<lparr>current = Str ''a'', subs = [7]\<rparr>\<rparr> ''GO''
     = (\<lparr>states_machine = [''a'' \<mapsto> \<lparr>on = Some [''GO'' \<mapsto> ''toString'']\<rparr>],
          current_state = Str ''toString'',
          store_machine = \<lparr>current = Str ''toString'', subs = [7]\<rparr>\<rparr>,
        [(7, Str ''toString'')], [], None)"
  "send \<lparr>states_machine = [''a'' \<mapsto> \<lparr>on = Some [''GO'' \<mapsto> ''toString'']\<rparr>],
          current_state = Str ''toString'',
          store_machine = \<lparr>current = Str ''toString'', subs = [7]\<rparr>\<rparr> ''BARK''
     = (\<lparr>states_machine = [''a'' \<mapsto> \<lparr>on = Some [''GO'' \<mapsto> ''toString'']\<rparr>],
          current_state = Str ''toString'',
          store_machine = \<lparr>current = Str ''toString'', subs = [7]\<rparr>\<rparr>,
        [], [], Some (TypeError ''states[current_state].on is undefined''))"
  by (simp_all add: send_def get_property_def truthy_handler_def property_key_def
      object_prototype_def set_writable_invoke)

text \<open>
  An event named like an inherited member has a truthy \<^verbatim>\<open>on[event]\<close> in every table.
  In the module's store it ends at line 14 with \<^verbatim>\<open>no such state\<close>; in a table that has
  the key \<^verbatim>\<open>[object Object]\<close> the event \<^verbatim>\<open>__proto__\<close>, for which no table has a
  handler, moves the store and notifies its listener.
\<close>

lemma send_inherited_event:
  "send \<lparr>states_machine = states state_config, current_state = Str ''visible'',
          store_machine = \<lparr>current = Str ''visible'', subs = [7]\<rparr>\<rparr> ''toString''
     = (\<lparr>states_machine = states state_config, current_state = Str ''visible'',
          store_machine = \<lparr>current = Str ''visible'', subs = [7]\<rparr>\<rparr>,
        [], [''no such state''], None)"
  "send \<lparr>states_machine = [''a'' \<mapsto> \<lparr>on = Some Map.empty\<rparr>,
                            ''[object Object]'' \<mapsto> \<lparr>on = Some Map.empty\<rparr>],
          current_state = Str ''a'', store_machine = \<lparr>current = Str ''a'', subs = [7]\<rparr>\<rparr>
        ''__proto__''
     = (\<lparr>states_machine = [''a'' \<mapsto> \<lparr>on = Some Map.empty\<rparr>,
                            ''[object Object]'' \<mapsto> \<lparr>on = Some Map.empty\<rparr>],
          current_state = Inherited ''__proto__'',
          store_machine = \<lparr>current = Inherited ''__proto__'', subs = [7]\<rparr>\<rparr>,
        [(7, Inherited ''__proto__'')], [], None)"
  by (simp_all add: send_def get_property_def truthy_handler_def property_key_def
      object_prototype_def set_writable_invoke state_config_def)

section \<open>Properties of the guarded state machine store\<close>

lemma dog_visible:
  "states_fsm dog_machine ''visible'' =
     Some \<lparr>on_fsm =
              [''HIDE'' \<mapsto> Target ''invisible'',
               ''INC'' \<mapsto> Config \<lparr>target = None, internal = True,
                                    actions_fsm = [increment], cond = Some dogsCanChange\<rparr>,
               ''DEC'' \<mapsto> Config \<lparr>target = None, internal = True,
                                    actions_fsm = [decrement], cond = Some dogsCanChange\<rparr>]\<rparr>"
  by (simp add: dog_machine_def)

lemma dog_invisible:
  "states_fsm dog_machine ''invisible'' = Some \<lparr>on_fsm = [''SHOW'' \<mapsto> Target ''visible'']\<rparr>"
  by (simp add: dog_machine_def)

lemma dog_initial: "initial dog_machine = ''visible''" "context_fsm dog_machine = \<lparr>dogs = 0\<rparr>"
  by (simp_all add: dog_machine_def)

lemma dom_dog_states: "dom (states_fsm dog_machine) = {''visible'', ''invisible''}"
  by (auto simp: dog_machine_def)

lemma dogs_update_neq: "d \<noteq> dogs c \<Longrightarrow> c\<lparr>dogs := d\<rparr> \<noteq> (c :: dog_context)"
  by (cases c) simp

lemma transition_dog_inv:
  assumes "dog_inv st"
  shows "\<exists>st'. transition_fsm dog_machine st ev = Inr st' \<and> dog_inv st'"
proof -
  from assms consider (v) "value_fsm st = ''visible''" | (i) "value_fsm st = ''invisible''"
    by (auto simp: dog_inv_def)
  then show ?thesis
  proof cases
    case v
    with assms show ?thesis
      by (auto simp: transition_fsm_def dog_visible dog_invisible normalise_def unchanged_state_def
          dog_inv_def dogsCanChange_def increment_def decrement_def assign_dogs_def round_double_exact Let_def)
  next
    case i
    with assms show ?thesis
      by (auto simp: transition_fsm_def dog_visible dog_invisible normalise_def unchanged_state_def
          dog_inv_def Let_def)
  qed
qed

lemma send_fsm_dog_inv:
  assumes "dog_inv (state_fsm svc)"
  shows "\<exists>svc' ns. send_fsm dog_machine svc ev = Inr (svc', ns) \<and> dog_inv (state_fsm svc')
           \<and> status_of svc' = status_of svc"
proof (cases "status_of svc = Running")
  case True
  from transition_dog_inv[OF assms, of ev] obtain st'
    where "transition_fsm dog_machine (state_fsm svc) ev = Inr st'" "dog_inv st'" by blast
  with True show ?thesis by (simp add: send_fsm_def)
next
  case False
  with assms show ?thesis by (simp add: send_fsm_def)
qed

lemma send_all_fsm_dog_inv:
  "dog_inv (state_fsm svc) \<Longrightarrow>
     \<exists>svc' ns. send_all_fsm dog_machine svc evs = Inr (svc', ns) \<and> dog_inv (state_fsm svc')"
proof (induction evs arbitrary: svc)
  case Nil
  then show ?case by simp
next
  case (Cons ev evs)
  from send_fsm_dog_inv[OF Cons.prems, of ev] obtain svc1 ns1
    where s1: "send_fsm dog_machine svc ev = Inr (svc1, ns1)" and i1: "dog_inv (state_fsm svc1)"
    by blast
  from Cons.IH[OF i1] obtain svc2 ns2
    where s2: "send_all_fsm dog_machine svc1 evs = Inr (svc2, ns2)" and i2: "dog_inv (state_fsm svc2)"
    by blast
  from s1 s2 i2 show ?case by simp
qed

text \<open>
  The machine of xstate-store.js is guarded. With the service in one of its
  states, a \<^verbatim>\<open>DEC\<close> event sent while the counter is 0 or less leaves the state name and
  the context as they were and publishes nothing; so does an \<^verbatim>\<open>INC\<close> event sent while
  the counter is 6 or more; and for a counter strictly between the bounds the guard
  accepts every event.
\<close>

theorem guard_enforced:
  assumes "value_fsm (state_fsm svc) \<in> dom (states_fsm dog_machine)"
  shows "(dogs (context_of (state_fsm svc)) \<le> 0 \<longrightarrow>
            (\<exists>svc'. send_fsm dog_machine svc \<lparr>type = ''DEC''\<rparr> = Inr (svc', [])
               \<and> value_fsm (state_fsm svc') = value_fsm (state_fsm svc)
               \<and> context_of (state_fsm svc') = context_of (state_fsm svc)))
       \<and> (dogs (context_of (state_fsm svc)) \<ge> 6 \<longrightarrow>
            (\<exists>svc'. send_fsm dog_machine svc \<lparr>type = ''INC''\<rparr> = Inr (svc', [])
               \<and> value_fsm (state_fsm svc') = value_fsm (state_fsm svc)
               \<and> context_of (state_fsm svc') = context_of (state_fsm svc)))
       \<and> (0 < dogs (context_of (state_fsm svc)) \<and> dogs (context_of (state_fsm svc)) < 6 \<longrightarrow>
            dogsCanChange (context_of (state_fsm svc)) ev)"
proof -
  from assms consider (v) "value_fsm (state_fsm svc) = ''visible''"
    | (i) "value_fsm (state_fsm svc) = ''invisible''"
    by (auto simp: dom_dog_states)
  then show ?thesis
  proof cases
    case v
    then show ?thesis
      by (simp add: send_fsm_def transition_fsm_def dog_visible normalise_def
          unchanged_state_def dogsCanChange_def Let_def)
  next
    case i
    then show ?thesis
      by (simp add: send_fsm_def transition_fsm_def dog_invisible normalise_def
          unchanged_state_def dogsCanChange_def Let_def)
  qed
qed

lemma guard_accepts_moves:
  assumes "status_of svc = Running"
      and "value_fsm (state_fsm svc) = ''visible''"
      and "0 < dogs (context_of (state_fsm svc))" and "dogs (context_of (state_fsm svc)) < 6"
  shows "send_fsm dog_machine svc \<lparr>type = ''INC''\<rparr>
           = Inr (svc\<lparr>state_fsm := \<lparr>value_fsm = ''visible'',
                     context_of = \<lparr>dogs = dogs (context_of (state_fsm svc)) + 1\<rparr>, changed = True\<rparr>\<rparr>,
                  [\<lparr>value_fsm = ''visible'',
                     context_of = \<lparr>dogs = dogs (context_of (state_fsm svc)) + 1\<rparr>, changed = True\<rparr>])"
    and "send_fsm dog_machine svc \<lparr>type = ''DEC''\<rparr>
           = Inr (svc\<lparr>state_fsm := \<lparr>value_fsm = ''visible'',
                     context_of = \<lparr>dogs = dogs (context_of (state_fsm svc)) - 1\<rparr>, changed = True\<rparr>\<rparr>,
                  [\<lparr>value_fsm = ''visible'',
                     context_of = \<lparr>dogs = dogs (context_of (state_fsm svc)) - 1\<rparr>, changed = True\<rparr>])"
  using assms
  by (simp_all add: send_fsm_def transition_fsm_def dog_visible normalise_def
      dogsCanChange_def increment_def decrement_def assign_dogs_def round_double_exact dogs_update_neq Let_def)

text \<open>
  The guard of xstate-store.js at the counters 0 (the started machine), 6 and 3.
\<close>

theorem guard_enforced_witness:
  "(\<exists>svc'. send_fsm dog_machine (start (interpret_fsm dog_machine)) \<lparr>type = ''DEC''\<rparr> = Inr (svc', [])
       \<and> value_fsm (state_fsm svc') = ''visible'' \<and> context_of (state_fsm svc') = \<lparr>dogs = 0\<rparr>)
   \<and> (\<exists>svc'. send_fsm dog_machine
          \<lparr>status_of = Running,
             state_fsm = \<lparr>value_fsm = ''visible'', context_of = \<lparr>dogs = 6\<rparr>, changed = True\<rparr>\<rparr>
          \<lparr>type = ''INC''\<rparr> = Inr (svc', [])
       \<and> value_fsm (state_fsm svc') = ''visible'' \<and> context_of (state_fsm svc') = \<lparr>dogs = 6\<rparr>)
   \<and> dogsCanChange \<lparr>dogs = 3\<rparr> \<lparr>type = ''INC''\<rparr>
   \<and> dogsCanChange \<lparr>dogs = 3\<rparr> \<lparr>type = ''DEC''\<rparr>"
  using guard_enforced[of "start (interpret_fsm dog_machine)"]
        guard_enforced[of "\<lparr>status_of = Running,
             state_fsm = \<lparr>value_fsm = ''visible'', context_of = \<lparr>dogs = 6\<rparr>, changed = True\<rparr>\<rparr>"]
        guard_enforced[of "\<lparr>status_of = Running,
             state_fsm = \<lparr>value_fsm = ''visible'', context_of = \<lparr>dogs = 3\<rparr>, changed = True\<rparr>\<rparr>"
             "\<lparr>type = ''INC''\<rparr>"]
        guard_enforced[of "\<lparr>status_of = Running,
             state_fsm = \<lparr>value_fsm = ''visible'', context_of = \<lparr>dogs = 3\<rparr>, changed = True\<rparr>\<rparr>"
             "\<lparr>type = ''DEC''\<rparr>"]
  by (simp add: start_def interpret_fsm_def initial_fsm_state_def dog_initial dom_dog_states)

text \<open>
  C8. The started dog machine is in \<^verbatim>\<open>visible\<close> with the counter 0. After \<^verbatim>\<open>INC\<close>,
  \<^verbatim>\<open>SHOW\<close>, \<^verbatim>\<open>HIDE\<close> it is in \<^verbatim>\<open>invisible\<close> with the counter 1, and two states were
  published, the one after \<^verbatim>\<open>INC\<close> and the one after \<^verbatim>\<open>HIDE\<close>: the \<^verbatim>\<open>SHOW\<close> between
  them, sent in \<^verbatim>\<open>visible\<close>, changed neither the state name nor the context and published
  nothing.
\<close>

theorem dog_machine_inc_show_hide:
  "send_all_fsm dog_machine (start (interpret_fsm dog_machine))
     [\<lparr>type = ''INC''\<rparr>, \<lparr>type = ''SHOW''\<rparr>, \<lparr>type = ''HIDE''\<rparr>]
   = Inr (\<lparr>status_of = Running,
           state_fsm = \<lparr>value_fsm = ''invisible'', context_of = \<lparr>dogs = 1\<rparr>, changed = True\<rparr>\<rparr>,
          [\<lparr>value_fsm = ''visible'', context_of = \<lparr>dogs = 1\<rparr>, changed = True\<rparr>,
           \<lparr>value_fsm = ''invisible'', context_of = \<lparr>dogs = 1\<rparr>, changed = True\<rparr>])
   \<and> state_fsm (start (interpret_fsm dog_machine))
       = \<lparr>value_fsm = ''visible'', context_of = \<lparr>dogs = 0\<rparr>, changed = False\<rparr>
   \<and> send_fsm dog_machine
         \<lparr>status_of = Running,
            state_fsm = \<lparr>value_fsm = ''visible'', context_of = \<lparr>dogs = 1\<rparr>, changed = True\<rparr>\<rparr>
         \<lparr>type = ''SHOW''\<rparr>
       = Inr (\<lparr>status_of = Running,
               state_fsm = \<lparr>value_fsm = ''visible'', context_of = \<lparr>dogs = 1\<rparr>, changed = False\<rparr>\<rparr>,
              [])"
  by (simp add: send_fsm_def transition_fsm_def dog_visible dog_invisible normalise_def
      unchanged_state_def start_def interpret_fsm_def initial_fsm_state_def dog_initial
      dogsCanChange_def increment_def assign_dogs_def round_double_exact Let_def)

text \<open>
  C9. Whatever events are sent to the started dog machine, every send returns, and the
  configuration reached has its counter between 0 and 6 and a state name that is a key
  of the table of states, which has the two keys \<^verbatim>\<open>visible\<close> and \<^verbatim>\<open>invisible\<close>.
\<close>

theorem dog_machine_bounded:
  "\<exists>svc' ns. send_all_fsm dog_machine (start (interpret_fsm dog_machine)) evs = Inr (svc', ns)
      \<and> 0 \<le> dogs (context_of (state_fsm svc')) \<and> dogs (context_of (state_fsm svc')) \<le> 6
      \<and> value_fsm (state_fsm svc') \<in> dom (states_fsm dog_machine)
      \<and> dom (states_fsm dog_machine) = {''visible'', ''invisible''}"
proof -
  have "dog_inv (state_fsm (start (interpret_fsm dog_machine)))"
    by (simp add: dog_inv_def start_def interpret_fsm_def initial_fsm_state_def dog_initial)
  from send_all_fsm_dog_inv[OF this, of evs] show ?thesis
    by (auto simp: dog_inv_def dom_dog_states)
qed

text \<open>
  C2 at the other copy of the module (unnamed source part_002). Its guard accepts
  \<^verbatim>\<open>DEC\<close> at the counter 0 and \<^verbatim>\<open>INC\<close> at the counter 6, and its machine does not
  consult the guard: \<^verbatim>\<open>DEC\<close> sent to the started machine, whose counter is 0, takes the
  counter to -1 and publishes the state, and \<^verbatim>\<open>INC\<close> sent at the counter 6 takes it to 7
  and publishes the state.
\<close>

theorem dog_machine_part_002_unguarded:
  "dogsCanChange_part_002 \<lparr>dogs = 0\<rparr> \<lparr>type = ''DEC''\<rparr>
   \<and> dogsCanChange_part_002 \<lparr>dogs = 6\<rparr> \<lparr>type = ''INC''\<rparr>
   \<and> send_fsm dog_machine_part_002 (start (interpret_fsm dog_machine_part_002)) \<lparr>type = ''DEC''\<rparr>
     = Inr (\<lparr>status_of = Running,
             state_fsm = \<lparr>value_fsm = ''visible'', context_of = \<lparr>dogs = -1\<rparr>, changed = True\<rparr>\<rparr>,
            [\<lparr>value_fsm = ''visible'', context_of = \<lparr>dogs = -1\<rparr>, changed = True\<rparr>])
   \<and> send_fsm dog_machine_part_002
         \<lparr>status_of = Running,
            state_fsm = \<lparr>value_fsm = ''visible'', context_of = \<lparr>dogs = 6\<rparr>, changed = True\<rparr>\<rparr>
         \<lparr>type = ''INC''\<rparr>
     = Inr (\<lparr>status_of = Running,
             state_fsm = \<lparr>value_fsm = ''visible'', context_of = \<lparr>dogs = 7\<rparr>, changed = True\<rparr>\<rparr>,
            [\<lparr>value_fsm = ''visible'', context_of = \<lparr>dogs = 7\<rparr>, changed = True\<rparr>])"
  by (simp add: send_fsm_def transition_fsm_def dog_machine_part_002_def normalise_def
      dogsCanChange_part_002_def start_def interpret_fsm_def initial_fsm_state_def
      increment_def decrement_def assign_dogs_def round_double_exact Let_def)

section \<open>Properties of the immer actions store\<close>

lemma dom_actions:
  "dom (actions :: string \<rightharpoonup> (dog_state, 'p) recipe) = {''reset'', ''show'', ''hide'', ''inc'', ''dec''}"
  by (auto simp: actions_def)

lemma update_writable_current:
  "update_writable invoke st f [] =
     (st\<lparr>current := f (current st)\<rparr>,
      if current st \<noteq> f (current st) then map (\<lambda>l. (l, f (current st))) (subs st) else [], None)"
  by (simp add: update_writable_def set_writable_invoke)

lemma mappedActions_known:
  "actions name = Some recipe \<Longrightarrow>
     mappedActions actions name payload st =
       Inr (st\<lparr>current := produce recipe (current st) payload\<rparr>,
            if current st \<noteq> produce recipe (current st) payload
            then map (\<lambda>l. (l, produce recipe (current st) payload)) (subs st) else [])"
  by (simp add: mappedActions_def update_writable_current)

text \<open>
  C10, as it holds. Every action of the table keeps the counter of the store at 0 or
  above. The action \<^verbatim>\<open>dec\<close> called while the counter is 0 returns the store as it was,
  with no call of a listener. The action \<^verbatim>\<open>inc\<close> is not guarded; it adds one to a
  counter that is below \<open>2 ^ 53\<close> and leaves \<^verbatim>\<open>visible\<close> alone.
\<close>

theorem actions_keep_dogs_nonnegative:
  "(0 \<le> dogs (current st) \<longrightarrow>
      (\<forall>name \<in> dom (actions :: string \<rightharpoonup> (dog_state, 'p) recipe).
            \<exists>st' log. mappedActions actions name (payload :: 'p) st = Inr (st', log)
                \<and> 0 \<le> dogs (current st')))
   \<and> (dogs (current st) = 0 \<longrightarrow>
        mappedActions actions ''dec'' payload st = Inr (st, []))
   \<and> (0 \<le> dogs (current st) \<and> dogs (current st) < 2 ^ 53 \<longrightarrow>
        (\<exists>st' log. mappedActions actions ''inc'' payload st = Inr (st', log)
            \<and> dogs (current st') = dogs (current st) + 1
            \<and> visible (current st') = visible (current st)))"
proof -
  have r: "actions ''reset'' = Some (reset_action :: (dog_state, 'p) recipe)"
   and s: "actions ''show'' = Some (show_action :: (dog_state, 'p) recipe)"
   and h: "actions ''hide'' = Some (hide_action :: (dog_state, 'p) recipe)"
   and i: "actions ''inc'' = Some (inc_action :: (dog_state, 'p) recipe)"
   and d: "actions ''dec'' = Some (dec_action :: (dog_state, 'p) recipe)"
    by (simp_all add: actions_def)
  have all: "0 \<le> dogs (current st) \<longrightarrow>
         (\<forall>name \<in> dom (actions :: string \<rightharpoonup> (dog_state, 'p) recipe).
            \<exists>st' log. mappedActions actions name payload st = Inr (st', log)
                \<and> 0 \<le> dogs (current st'))"
    by (simp add: dom_actions mappedActions_known[OF r] mappedActions_known[OF s]
        mappedActions_known[OF h] mappedActions_known[OF i] mappedActions_known[OF d]
        produce_def reset_action_def show_action_def hide_action_def inc_action_def
        dec_action_def initialState_def round_double_nonneg)
  have dec0: "dogs (current st) = 0 \<longrightarrow> mappedActions actions ''dec'' payload st = Inr (st, [])"
    by (simp add: mappedActions_known[OF d] produce_def dec_action_def)
  have inc1: "0 \<le> dogs (current st) \<and> dogs (current st) < 2 ^ 53 \<longrightarrow>
        (\<exists>st' log. mappedActions actions ''inc'' payload st = Inr (st', log)
            \<and> dogs (current st') = dogs (current st) + 1
            \<and> visible (current st') = visible (current st))"
  proof
    assume b: "0 \<le> dogs (current st) \<and> dogs (current st) < 2 ^ 53"
    then have "\<bar>dogs (current st) + 1\<bar> < 2 ^ 53 \<or> dogs (current st) + 1 = 2 ^ 53"
      by auto
    then have "round_double (dogs (current st) + 1) = dogs (current st) + 1"
    proof
      assume "\<bar>dogs (current st) + 1\<bar> < 2 ^ 53"
      then show ?thesis by (rule round_double_small)
    next
      assume e: "dogs (current st) + 1 = 2 ^ 53"
      have "round_double (2 ^ 53) = 2 ^ 53"
        by (simp add: round_double_def shift_of_large shift_of_small Let_def)
      with e show ?thesis by simp
    qed
    then show "\<exists>st' log. mappedActions actions ''inc'' payload st = Inr (st', log)
            \<and> dogs (current st') = dogs (current st) + 1
            \<and> visible (current st') = visible (current st)"
      by (simp add: mappedActions_known[OF i] produce_def inc_action_def)
  qed
  from all dec0 inc1 show ?thesis by blast
qed

text \<open>
  C10 at the store of the module, whose value is the initial state with the counter 0.
\<close>

theorem actions_keep_dogs_nonnegative_witness:
  "0 \<le> dogs (current (immerActionsStore initialState))
   \<and> (\<exists>st' log. mappedActions actions ''reset'' () (immerActionsStore initialState) = Inr (st', log)
          \<and> 0 \<le> dogs (current st'))
   \<and> (\<exists>st' log. mappedActions actions ''show'' () (immerActionsStore initialState) = Inr (st', log)
          \<and> 0 \<le> dogs (current st'))
   \<and> (\<exists>st' log. mappedActions actions ''hide'' () (immerActionsStore initialState) = Inr (st', log)
          \<and> 0 \<le> dogs (current st'))
   \<and> (\<exists>st' log. mappedActions actions ''dec'' () (immerActionsStore initialState) = Inr (st', log)
          \<and> 0 \<le> dogs (current st'))
   \<and> mappedActions actions ''dec'' () (immerActionsStore initialState)
        = Inr (immerActionsStore initialState, [])
   \<and> (\<exists>st' log. mappedActions actions ''inc'' () (immerActionsStore initialState) = Inr (st', log)
          \<and> dogs (current st') = 1 \<and> visible (current st') = False)"
  using actions_keep_dogs_nonnegative[of "immerActionsStore initialState" "()"]
  by (simp add: dom_actions immerActionsStore_def writable_def initialState_def)

text \<open>
  C10, as stated, fails. With the counter at \<open>2 ^ 53 = 9007199254740992\<close> the sum with 1
  rounds back to the same double, so \<^verbatim>\<open>inc\<close> returns the store as it was and calls no
  listener: it has not added one.
\<close>

theorem inc_stops_at_2_53:
  "mappedActions actions ''inc'' ()
     \<lparr>current = \<lparr>dogs = 9007199254740992, visible = False\<rparr>, subs = [7]\<rparr>
   = Inr (\<lparr>current = \<lparr>dogs = 9007199254740992, visible = False\<rparr>, subs = [7]\<rparr>, [])"
  by (simp add: mappedActions_def actions_def update_writable_def set_writable_def
      produce_def inc_action_def round_double_ties_to_even [simplified])

section \<open>Properties of the persisted store\<close>

lemma notify_persist_fails:
  "set_fails (fst w) \<Longrightarrow> ls \<noteq> [] \<Longrightarrow>
     notify (persist_then_call stringify k) ls v w = (w, Some (DOMException ''QuotaExceededError''))"
  by (cases ls) (simp_all add: persist_then_call_def setItem_def)

lemma notify_persist_ok:
  "\<not> set_fails (fst w) \<Longrightarrow>
     notify (persist_then_call stringify k) ls v w =
       ((if ls = [] then fst w else (fst w)\<lparr>items := (items (fst w))(k \<mapsto> stringify v)\<rparr>,
         snd w @ map (\<lambda>l. (l, v)) ls), None)"
proof (induction ls arbitrary: w)
  case Nil
  then show ?case by simp
next
  case (Cons l ls)
  let ?w' = "((fst w)\<lparr>items := (items (fst w))(k \<mapsto> stringify v)\<rparr>, snd w @ [(l, v)])"
  have step: "persist_then_call stringify k l v w = (?w', None)"
    using Cons.prems by (simp add: persist_then_call_def setItem_def)
  have "\<not> set_fails (fst ?w')" using Cons.prems by simp
  from Cons.IH[OF this] step show ?case by simp
qed

text \<open>
  C5, as it holds. The persisted store handles no failure of the storage. A read that
  throws at construction leaves \<^verbatim>\<open>createPersistedStore\<close> with that exception and no
  store. A write that throws leaves \<^verbatim>\<open>subscribe\<close> with that exception after the
  listener was registered and before it is called, and leaves a \<^verbatim>\<open>set\<close> of a new value
  on a store with subscribers with that exception after the value was replaced and
  before any listener is called. When the write does not fail, \<^verbatim>\<open>subscribe\<close> stores
  the serialised current value under the key and then calls the listener once with it,
  and a \<^verbatim>\<open>set\<close> of a new value calls every subscribed listener in order with it.
\<close>

theorem persisted_failures_propagate:
  "(get_fails ls \<longrightarrow>
      createPersistedStore parse ls k defaultValue = Inl (DOMException ''SecurityError''))
   \<and> (set_fails (fst w) \<longrightarrow>
        subscribe_persisted stringify p fn w
          = (p\<lparr>store_persisted := (store_persisted p)\<lparr>subs := subs (store_persisted p) @ [fn]\<rparr>\<rparr>,
             w, Some (DOMException ''QuotaExceededError'')))
   \<and> (set_fails (fst w) \<and> subs (store_persisted p) \<noteq> [] \<and> v \<noteq> current (store_persisted p) \<longrightarrow>
        set_persisted stringify p v w
          = (p\<lparr>store_persisted := (store_persisted p)\<lparr>current := v\<rparr>\<rparr>,
             w, Some (DOMException ''QuotaExceededError'')))
   \<and> (\<not> set_fails (fst w) \<longrightarrow>
        subscribe_persisted stringify p fn w
          = (p\<lparr>store_persisted := (store_persisted p)\<lparr>subs := subs (store_persisted p) @ [fn]\<rparr>\<rparr>,
             ((fst w)\<lparr>items := (items (fst w))(key p \<mapsto> stringify (current (store_persisted p)))\<rparr>,
              snd w @ [(fn, current (store_persisted p))]),
             None))
   \<and> (\<not> set_fails (fst w) \<and> v \<noteq> current (store_persisted p) \<longrightarrow>
        snd (set_persisted stringify p v w)
          = ((if subs (store_persisted p) = [] then fst w
              else (fst w)\<lparr>items := (items (fst w))(key p \<mapsto> stringify v)\<rparr>,
              snd w @ map (\<lambda>l. (l, v)) (subs (store_persisted p))),
             None))"
proof -
  have a: "get_fails ls \<longrightarrow>
      createPersistedStore parse ls k defaultValue = Inl (DOMException ''SecurityError'')"
    by (simp add: createPersistedStore_def getItem_def)
  have b: "set_fails (fst w) \<longrightarrow>
        subscribe_persisted stringify p fn w
          = (p\<lparr>store_persisted := (store_persisted p)\<lparr>subs := subs (store_persisted p) @ [fn]\<rparr>\<rparr>,
             w, Some (DOMException ''QuotaExceededError''))"
    by (simp add: subscribe_persisted_def subscribe_writable_def persist_then_call_def setItem_def Let_def)
  have c: "set_fails (fst w) \<and> subs (store_persisted p) \<noteq> [] \<and> v \<noteq> current (store_persisted p) \<longrightarrow>
        set_persisted stringify p v w
          = (p\<lparr>store_persisted := (store_persisted p)\<lparr>current := v\<rparr>\<rparr>,
             w, Some (DOMException ''QuotaExceededError''))"
    by (simp add: set_persisted_def set_writable_def notify_persist_fails Let_def)
  have d: "\<not> set_fails (fst w) \<longrightarrow>
        subscribe_persisted stringify p fn w
          = (p\<lparr>store_persisted := (store_persisted p)\<lparr>subs := subs (store_persisted p) @ [fn]\<rparr>\<rparr>,
             ((fst w)\<lparr>items := (items (fst w))(key p \<mapsto> stringify (current (store_persisted p)))\<rparr>,
              snd w @ [(fn, current (store_persisted p))]),
             None)"
    by (simp add: subscribe_persisted_def subscribe_writable_def persist_then_call_def setItem_def Let_def)
  have e: "\<not> set_fails (fst w) \<and> v \<noteq> current (store_persisted p) \<longrightarrow>
        snd (set_persisted stringify p v w)
          = ((if subs (store_persisted p) = [] then fst w
              else (fst w)\<lparr>items := (items (fst w))(key p \<mapsto> stringify v)\<rparr>,
              snd w @ map (\<lambda>l. (l, v)) (subs (store_persisted p))),
             None)"
    by (simp add: set_persisted_def set_writable_def notify_persist_ok Let_def)
  from a b c d e show ?thesis by blast
qed

text \<open>
  C5 at a storage whose writes fail and at one that works, for the store of a boolean
  with listener 7 subscribed and listener 8 subscribing.
\<close>

theorem persisted_failures_propagate_witness:
  "createPersistedStore parse_bool (storage_ok\<lparr>get_fails := True\<rparr>) ''dogs'' False
     = Inl (DOMException ''SecurityError'')
   \<and> subscribe_persisted stringify_bool
        \<lparr>key = ''dogs'', store_persisted = \<lparr>current = False, subs = [7]\<rparr>\<rparr> 8
        (storage_ok\<lparr>set_fails := True\<rparr>, [])
     = (\<lparr>key = ''dogs'', store_persisted = \<lparr>current = False, subs = [7, 8]\<rparr>\<rparr>,
        (storage_ok\<lparr>set_fails := True\<rparr>, []), Some (DOMException ''QuotaExceededError''))
   \<and> set_persisted stringify_bool
        \<lparr>key = ''dogs'', store_persisted = \<lparr>current = False, subs = [7]\<rparr>\<rparr> True
        (storage_ok\<lparr>set_fails := True\<rparr>, [])
     = (\<lparr>key = ''dogs'', store_persisted = \<lparr>current = True, subs = [7]\<rparr>\<rparr>,
        (storage_ok\<lparr>set_fails := True\<rparr>, []), Some (DOMException ''QuotaExceededError''))
   \<and> subscribe_persisted stringify_bool
        \<lparr>key = ''dogs'', store_persisted = \<lparr>current = False, subs = [7]\<rparr>\<rparr> 8 (storage_ok, [])
     = (\<lparr>key = ''dogs'', store_persisted = \<lparr>current = False, subs = [7, 8]\<rparr>\<rparr>,
        (storage_ok\<lparr>items := [''dogs'' \<mapsto> ''false'']\<rparr>, [(8, False)]), None)
   \<and> snd (set_persisted stringify_bool
        \<lparr>key = ''dogs'', store_persisted = \<lparr>current = False, subs = [7]\<rparr>\<rparr> True (storage_ok, []))
     = ((storage_ok\<lparr>items := [''dogs'' \<mapsto> ''true'']\<rparr>, [(7, True)]), None)"
  using persisted_failures_propagate
          [where ls = "storage_ok\<lparr>get_fails := True\<rparr>" and parse = parse_bool
             and k = "''dogs''" and defaultValue = False
             and w = "(storage_ok\<lparr>set_fails := True\<rparr>, [])" and stringify = stringify_bool
             and p = "\<lparr>key = ''dogs'', store_persisted = \<lparr>current = False, subs = [7]\<rparr>\<rparr>"
             and fn = 8 and v = True]
        persisted_failures_propagate
          [where ls = "storage_ok\<lparr>get_fails := True\<rparr>" and parse = parse_bool
             and k = "''dogs''" and defaultValue = False
             and w = "(storage_ok, [])" and stringify = stringify_bool
             and p = "\<lparr>key = ''dogs'', store_persisted = \<lparr>current = False, subs = [7]\<rparr>\<rparr>"
             and fn = 8 and v = True]
  by (simp add: storage_ok_def stringify_bool_def)

text \<open>
  C5, as stated, fails. With a storage whose writes throw, the store of the value
  \<^verbatim>\<open>false\<close> under the key \<^verbatim>\<open>dogs\<close> is built, and subscribing listener 7 ends with the
  exception of the write and no call of the listener; with a storage whose reads throw,
  the construction itself ends with the exception.
\<close>

theorem persisted_write_failure_blocks_listener:
  "createPersistedStore parse_bool (storage_ok\<lparr>set_fails := True\<rparr>) ''dogs'' False
     = Inr \<lparr>key = ''dogs'', store_persisted = writable False\<rparr>
   \<and> subscribe_persisted stringify_bool \<lparr>key = ''dogs'', store_persisted = writable False\<rparr> 7
        (storage_ok\<lparr>set_fails := True\<rparr>, [])
     = (\<lparr>key = ''dogs'', store_persisted = \<lparr>current = False, subs = [7]\<rparr>\<rparr>,
        (storage_ok\<lparr>set_fails := True\<rparr>, []),
        Some (DOMException ''QuotaExceededError''))
   \<and> createPersistedStore parse_bool (storage_ok\<lparr>get_fails := True\<rparr>) ''dogs'' False
     = Inl (DOMException ''SecurityError'')"
  by (simp add: createPersistedStore_def getItem_def storage_ok_def subscribe_persisted_def
      subscribe_writable_def persist_then_call_def setItem_def writable_def Let_def)

end
